theory Spec2Isabelle
  imports Main "HOL-Library.Word"
begin

unbundle bit_operations_syntax

section \<open>Go values used by the tracker\<close>

text \<open>
  The tracker of package \<open>httpstate\<close> works on \<open>json.RawMessage\<close>, which is \<open>[]byte\<close>. A Go
  slice can be \<open>nil\<close>, and \<open>CanDiff\<close> tests exactly that, so a slice is an optional byte
  list: \<open>None\<close> is the \<open>nil\<close> slice and \<open>Some []\<close> an empty slice that is not \<open>nil\<close>.
  The fields of type \<open>int\<close> are 64-bit words (Go's \<open>int\<close> on a 64-bit target): \<open>+\<close> wraps
  around and \<open><\<close> compares the signed readings.
\<close>

type_synonym byte = "8 word"
type_synonym go_int = "64 word"
type_synonym RawMessage = "byte list option"

text \<open>\<open>len(s)\<close> of a slice; the length of the \<open>nil\<close> slice is 0.\<close>

definition len :: "RawMessage \<Rightarrow> int" where
  "len s = (case s of None \<Rightarrow> 0 | Some bs \<Rightarrow> int (length bs))"

text \<open>The bytes a slice holds; the \<open>nil\<close> slice holds none.\<close>

definition bytes :: "RawMessage \<Rightarrow> byte list" where
  "bytes s = (case s of None \<Rightarrow> [] | Some bs \<Rightarrow> bs)"

text \<open>The conversion \<open>string(s)\<close>: a Go string is the same bytes, read as characters.\<close>

definition string_of :: "RawMessage \<Rightarrow> string" where
  "string_of s = map (\<lambda>b. char_of (unat b)) (bytes s)"

text \<open>
  A Go \<open>error\<close> is known by its message \<open>err.Error()\<close>; \<open>fmt.Errorf\<close> with the verb \<open>%v\<close>
  puts that message into the format string.
\<close>

datatype error = Err (Error: string)

section \<open>The libraries the tracker calls\<close>

text \<open>
  Three functions come from outside the package: \<open>myers.ComputeEdits\<close> (module
  \<open>gotextdiff\<close>), \<open>json.Marshal\<close> and \<open>sha256.Sum256\<close>. They are parameters of the model.
  \<open>myers.ComputeEdits\<close> takes a URI and the two texts and returns the edit script, of an
  arbitrary type \<open>'e\<close>; \<open>json.Marshal\<close> returns Go's pair of a slice and an error;
  \<open>sha256.Sum256\<close> returns an array \<open>[32]byte\<close>.
\<close>

typedef sha256_digest = "{bs :: byte list. length bs = 32}"
  morphisms digest_bytes Digest
  by (rule exI [of _ "replicate 32 0"]) simp

record 'e library =
  myers_ComputeEdits :: "string \<Rightarrow> string \<Rightarrow> string \<Rightarrow> 'e"
  json_Marshal :: "'e \<Rightarrow> RawMessage \<times> error option"
  sha256_Sum256 :: "byte list \<Rightarrow> sha256_digest"

text \<open>
  \<open>hex.EncodeToString\<close> of the standard library: two characters of the table for each byte,
  the high four bits first.
\<close>

definition hextable :: string where
  "hextable = ''0123456789abcdef''"

fun EncodeToString :: "byte list \<Rightarrow> string" where
  "EncodeToString [] = []"
| "EncodeToString (v # src) =
     hextable ! unat (drop_bit 4 v) # hextable ! unat (v AND 0x0f) # EncodeToString src"

section \<open>The tracker\<close>

record deploymentDiffState =
  lastSavedDeployment :: RawMessage
  sequenceNumber :: go_int
  minimalDiffSize :: go_int

text \<open>
  The result of \<open>Diff\<close>. Its first field is \<open>sequenceNumber\<close> in the source; a record field
  cannot share the name of the tracker's field, hence the prefix.
\<close>

record deploymentDiff =
  diff_sequenceNumber :: go_int
  checkpointHash :: string
  deploymentDelta :: RawMessage

text \<open>The zero value \<open>deploymentDiff{}\<close>, which \<open>Diff\<close> returns beside an error.\<close>

definition deploymentDiff_zero :: deploymentDiff where
  "deploymentDiff_zero =
     \<lparr>diff_sequenceNumber = 0, checkpointHash = [], deploymentDelta = None\<rparr>"

definition newDeploymentDiffState :: "go_int \<Rightarrow> deploymentDiffState" where
  "newDeploymentDiffState minimalDiffSize' =
     \<lparr>lastSavedDeployment = None, sequenceNumber = 1, minimalDiffSize = minimalDiffSize'\<rparr>"

definition SequenceNumber :: "deploymentDiffState \<Rightarrow> go_int" where
  "SequenceNumber dds = sequenceNumber dds"

definition CanDiff :: "deploymentDiffState \<Rightarrow> bool" where
  "CanDiff dds = (lastSavedDeployment dds \<noteq> None)"

definition ShouldDiff :: "deploymentDiffState \<Rightarrow> RawMessage \<Rightarrow> bool" where
  "ShouldDiff dds new =
     (if \<not> CanDiff dds then False
      else if len (lastSavedDeployment dds) < sint (minimalDiffSize dds) then False
      else if len new < sint (minimalDiffSize dds) then False
      else True)"

definition computeHash :: "'e library \<Rightarrow> RawMessage \<Rightarrow> string" where
  "computeHash lib deployment =
     (let hash = sha256_Sum256 lib (bytes deployment)
      in EncodeToString (digest_bytes hash))"

definition computeEdits :: "'e library \<Rightarrow> string \<Rightarrow> string \<Rightarrow> RawMessage \<times> error option" where
  "computeEdits lib before after =
     (let edits = myers_ComputeEdits lib '''' before after
      in case json_Marshal lib edits of
           (delta, Some err) \<Rightarrow> (None, Some (Err (''Cannot marshal the edits: '' @ Error err)))
         | (delta, None) \<Rightarrow> (delta, None))"

text \<open>
  \<open>Diff\<close> starts the hash in a goroutine and computes the edits itself. What the calling
  goroutine does to the wait group \<open>checkpointHashReady\<close> is recorded, in program order, in
  the third component of the result: the join \<open>Wait\<close> comes after the error return of the
  edits. The hash is read only after \<open>Wait\<close>, when the goroutine has stored
  \<open>computeHash\<close> of the candidate. The tracing span and its tags are diagnostics and are
  left out.
\<close>

datatype sync_event = checkpointHashReady_Add | go_computeHash | checkpointHashReady_Wait

definition Diff ::
  "'e library \<Rightarrow> deploymentDiffState \<Rightarrow> RawMessage \<Rightarrow>
     deploymentDiff \<times> error option \<times> sync_event list" where
  "Diff lib dds deployment =
     (if \<not> CanDiff dds
      then (deploymentDiff_zero, Some (Err ''Diff() cannot be called before Saved()''), [])
      else
        let before = lastSavedDeployment dds;
            after = deployment
        in case computeEdits lib (string_of before) (string_of after) of
             (delta, Some err) \<Rightarrow>
               (deploymentDiff_zero,
                Some (Err (''Cannot marshal the edits: '' @ Error err)),
                [checkpointHashReady_Add, go_computeHash])
           | (delta, None) \<Rightarrow>
               (\<lparr>diff_sequenceNumber = sequenceNumber dds,
                 checkpointHash = computeHash lib after,
                 deploymentDelta = delta\<rparr>,
                None,
                [checkpointHashReady_Add, go_computeHash, checkpointHashReady_Wait]))"

text \<open>
  \<open>Saved\<close> assigns both fields and returns the \<open>nil\<close> error. The slice is stored as it is
  passed, \<open>nil\<close> included, without a copy; the model holds its bytes as of the call.
\<close>

definition Saved :: "deploymentDiffState \<Rightarrow> RawMessage \<Rightarrow> error option \<times> deploymentDiffState" where
  "Saved dds deployment =
     (None, dds\<lparr>lastSavedDeployment := deployment, sequenceNumber := sequenceNumber dds + 1\<rparr>)"

section \<open>Sequences of calls\<close>

text \<open>
  The five methods as calls on one tracker. Only \<open>Saved\<close> assigns to the receiver's fields,
  so every other call hands the tracker on as it found it.
\<close>

datatype call =
    Call_SequenceNumber
  | Call_CanDiff
  | Call_ShouldDiff RawMessage
  | Call_Diff RawMessage
  | Call_Saved RawMessage

datatype response =
    Ret_int go_int
  | Ret_bool bool
  | Ret_Diff deploymentDiff "error option"
  | Ret_error "error option"

fun apply_call :: "'e library \<Rightarrow> call \<Rightarrow> deploymentDiffState \<Rightarrow> response \<times> deploymentDiffState" where
  "apply_call lib Call_SequenceNumber dds = (Ret_int (SequenceNumber dds), dds)"
| "apply_call lib Call_CanDiff dds = (Ret_bool (CanDiff dds), dds)"
| "apply_call lib (Call_ShouldDiff new) dds = (Ret_bool (ShouldDiff dds new), dds)"
| "apply_call lib (Call_Diff deployment) dds =
     (case Diff lib dds deployment of (diff, err, _) \<Rightarrow> (Ret_Diff diff err, dds))"
| "apply_call lib (Call_Saved deployment) dds =
     (case Saved dds deployment of (err, dds') \<Rightarrow> (Ret_error err, dds'))"

fun run :: "'e library \<Rightarrow> call list \<Rightarrow> deploymentDiffState \<Rightarrow> deploymentDiffState" where
  "run lib [] dds = dds"
| "run lib (c # cs) dds = run lib cs (snd (apply_call lib c dds))"

fun is_Saved :: "call \<Rightarrow> bool" where
  "is_Saved (Call_Saved _) = True"
| "is_Saved _ = False"

text \<open>
  The snapshot passed to the most recent \<open>Saved\<close> call of a sequence (the head of the list
  is the first call), \<open>None\<close> when the sequence has no \<open>Saved\<close> call.
\<close>

fun last_Saved :: "call list \<Rightarrow> RawMessage option" where
  "last_Saved [] = None"
| "last_Saved (c # cs) =
     (case last_Saved cs of
        Some deployment \<Rightarrow> Some deployment
      | None \<Rightarrow> (case c of Call_Saved deployment \<Rightarrow> Some deployment | _ \<Rightarrow> None))"

text \<open>\<open>n\<close> calls of \<open>Saved\<close>, the \<open>i\<close>-th with the snapshot \<open>snapshots i\<close>.\<close>

fun Saved_times :: "nat \<Rightarrow> (nat \<Rightarrow> RawMessage) \<Rightarrow> deploymentDiffState \<Rightarrow> deploymentDiffState" where
  "Saved_times 0 snapshots dds = dds"
| "Saved_times (Suc n) snapshots dds = snd (Saved (Saved_times n snapshots dds) (snapshots n))"

section \<open>A library for the concrete runs\<close>

text \<open>
  Stand-ins used only where a theorem is applied to concrete values: the edit script is the
  pair of its inputs, the encoder fails exactly when asked to, the digest is constant.
\<close>

definition test_library :: "bool \<Rightarrow> (string \<times> string) library" where
  "test_library fails =
     \<lparr>myers_ComputeEdits = (\<lambda>uri before after. (before, after)),
      json_Marshal = (\<lambda>edits. if fails then (None, Some (Err ''unsupported type''))
                               else (Some [0x5b, 0x5d], None)),
      sha256_Sum256 = (\<lambda>data. Digest (replicate 32 0))\<rparr>"

text \<open>
  A tracker with threshold 2 after one \<open>Saved\<close> of the two bytes \<open>{}\<close>, the candidate
  \<open>[1]\<close>, and the result of \<open>Diff\<close> for them when the encoder succeeds.
\<close>

definition example_tracker :: deploymentDiffState where
  "example_tracker = snd (Saved (newDeploymentDiffState 2) (Some [0x7b, 0x7d]))"

definition example_candidate :: RawMessage where
  "example_candidate = Some [0x5b, 0x31, 0x5d]"

definition example_diff :: deploymentDiff where
  "example_diff =
     \<lparr>diff_sequenceNumber = 2,
      checkpointHash = replicate 64 (CHR ''0''),
      deploymentDelta = Some [0x5b, 0x5d]\<rparr>"

section \<open>Auxiliary facts\<close>

subsection \<open>The counter\<close>

lemma Saved_times_sequenceNumber:
  "sequenceNumber (Saved_times n snapshots dds) = sequenceNumber dds + of_nat n"
  by (induction n) (simp_all add: Saved_def)

text \<open>Below \<open>2^63 - 1\<close> calls the counter has not wrapped: its signed reading is \<open>n + 1\<close>.\<close>

lemma sint_go_int_of_nat:
  assumes "n < 2 ^ 63 - 1"
  shows "sint (1 + of_nat n :: go_int) = int n + 1"
proof -
  have eq: "(1 + of_nat n :: go_int) = word_of_int (int n + 1)"
    by simp
  have "sint (word_of_int (int n + 1) :: go_int) = signed_take_bit 63 (int n + 1)"
    by (simp only: sint_sbintrunc') simp
  also have "\<dots> = int n + 1"
    using assms by (intro signed_take_bit_int_eq_self) simp_all
  finally show ?thesis
    by (simp only: eq)
qed

subsection \<open>Hexadecimal encoding\<close>

lemma length_EncodeToString: "length (EncodeToString src) = 2 * length src"
  by (induction src) simp_all

lemma hextable_nth: "i < 16 \<Longrightarrow> hextable ! i \<in> set hextable"
  by (rule nth_mem) (simp add: hextable_def)

lemma high_nibble_bound: "unat (drop_bit 4 (v :: byte)) < 16"
proof -
  have "unat v < 256"
    using unsigned_less [of v, where ?'a = nat] by simp
  moreover have "unat (drop_bit 4 v) = unat v div 16"
    by (simp add: drop_bit_eq_div unat_div)
  ultimately show ?thesis
    by simp
qed

lemma low_nibble_bound: "unat ((v :: byte) AND 0x0f) < 16"
proof -
  have "v AND 0x0f \<le> 0x0f"
    by (rule word_and_le1)
  then have "unat (v AND 0x0f) \<le> unat (0x0f :: byte)"
    by (simp only: word_le_nat_alt)
  then show ?thesis
    by simp
qed

lemma set_EncodeToString: "set (EncodeToString src) \<subseteq> set hextable"
  by (induction src) (simp_all add: hextable_nth high_nibble_bound low_nibble_bound)

lemma EncodeToString_zeros:
  "EncodeToString (replicate n 0) = replicate (2 * n) (CHR ''0'')"
  by (induction n) (simp_all add: hextable_def)

lemma length_digest_bytes: "length (digest_bytes h) = 32"
  using digest_bytes [of h] by simp

lemma computeHash_unfold:
  "computeHash lib deployment =
     EncodeToString (digest_bytes (sha256_Sum256 lib (bytes deployment)))"
  by (simp add: computeHash_def)

subsection \<open>The outcomes of Diff\<close>

lemma Diff_success:
  assumes "Diff lib dds deployment = (diff, None, sync)"
  shows "CanDiff dds"
    and "diff_sequenceNumber diff = sequenceNumber dds"
    and "checkpointHash diff = computeHash lib deployment"
    and "sync = [checkpointHashReady_Add, go_computeHash, checkpointHashReady_Wait]"
  using assms
  by (auto simp: Diff_def Let_def split: if_splits prod.splits option.splits)


lemma Diff_error_cases:
  "CanDiff dds \<Longrightarrow>
     fst (snd (Diff lib dds deployment)) = None
     \<or> (\<exists>msg. fst (snd (Diff lib dds deployment)) =
            Some (Err (''Cannot marshal the edits: '' @ msg)))"
  by (auto simp: Diff_def Let_def split: prod.splits option.splits)

subsection \<open>The concrete runs\<close>

lemma example_tracker_fields:
  "lastSavedDeployment example_tracker = Some [0x7b, 0x7d]"
  "sequenceNumber example_tracker = 2"
  "minimalDiffSize example_tracker = 2"
  by (simp_all add: example_tracker_def Saved_def newDeploymentDiffState_def)

lemma example_CanDiff: "CanDiff example_tracker"
  by (simp add: CanDiff_def example_tracker_fields)

lemma example_ShouldDiff: "ShouldDiff example_tracker example_candidate"
  by (simp add: ShouldDiff_def example_CanDiff len_def example_tracker_fields
      example_candidate_def)

lemma test_library_simps:
  "myers_ComputeEdits (test_library fails) uri before after = (before, after)"
  "json_Marshal (test_library fails) edits =
     (if fails then (None, Some (Err ''unsupported type'')) else (Some [0x5b, 0x5d], None))"
  "sha256_Sum256 (test_library fails) data = Digest (replicate 32 0)"
  by (simp_all add: test_library_def)

lemma test_library_computeHash:
  "computeHash (test_library fails) deployment = replicate 64 (CHR ''0'')"
proof -
  have "digest_bytes (Digest (replicate 32 0)) = replicate 32 0"
    by (rule Digest_inverse) simp
  then show ?thesis
    by (simp add: computeHash_unfold test_library_simps EncodeToString_zeros)
qed

lemma example_Diff:
  "Diff (test_library False) example_tracker example_candidate =
     (example_diff, None,
      [checkpointHashReady_Add, go_computeHash, checkpointHashReady_Wait])"
  by (simp add: Diff_def example_CanDiff computeEdits_def test_library_simps
      test_library_computeHash example_diff_def example_tracker_fields)


subsection \<open>Sequences of calls\<close>

lemma apply_call_not_Saved:
  "\<not> is_Saved c \<Longrightarrow> snd (apply_call lib c dds) = dds"
  by (cases c) (simp_all split: prod.splits)

lemma last_Saved_None: "last_Saved cs = None \<longleftrightarrow> filter is_Saved cs = []"
proof (induction cs)
  case Nil
  show ?case by simp
next
  case (Cons c cs)
  then show ?case
    by (cases c) (auto split: option.splits)
qed

lemma last_Saved_Cons_other:
  "\<not> is_Saved c \<Longrightarrow> last_Saved (c # cs) = last_Saved cs"
  by (cases c) (simp_all split: option.splits)

lemma run_lastSavedDeployment:
  "lastSavedDeployment (run lib cs dds) =
     (case last_Saved cs of None \<Rightarrow> lastSavedDeployment dds | Some deployment \<Rightarrow> deployment)"
proof (induction cs arbitrary: dds)
  case Nil
  show ?case by simp
next
  case (Cons c cs)
  show ?case
  proof (cases "is_Saved c")
    case False
    then show ?thesis
      by (simp add: Cons.IH apply_call_not_Saved last_Saved_Cons_other
          del: last_Saved.simps apply_call.simps)
  next
    case True
    then obtain deployment where c: "c = Call_Saved deployment"
      by (cases c) simp_all
    show ?thesis
      by (simp add: c Cons.IH Saved_def split: option.splits)
  qed
qed

lemma run_sequenceNumber:
  "sequenceNumber (run lib cs dds) = sequenceNumber dds + of_nat (length (filter is_Saved cs))"
proof (induction cs arbitrary: dds)
  case Nil
  show ?case by simp
next
  case (Cons c cs)
  show ?case
  proof (cases "is_Saved c")
    case False
    then show ?thesis
      by (simp add: Cons.IH apply_call_not_Saved)
  next
    case True
    then obtain deployment where c: "c = Call_Saved deployment"
      by (cases c) simp_all
    show ?thesis
      by (simp add: c Cons.IH Saved_def)
  qed
qed

section \<open>Heuristic gating\<close>

text \<open>
  C2. For a tracker with threshold \<open>T = minimalDiffSize\<close> and every candidate,
  \<open>ShouldDiff\<close> is false when \<open>CanDiff\<close> is false, or the stored baseline is shorter than
  \<open>T\<close>, or the candidate is shorter than \<open>T\<close>; in every other case it is true.
\<close>

theorem ShouldDiff_gating:
  "ShouldDiff dds new =
     (\<not> (\<not> CanDiff dds
         \<or> len (lastSavedDeployment dds) < sint (minimalDiffSize dds)
         \<or> len new < sint (minimalDiffSize dds)))"
  by (simp add: ShouldDiff_def)

theorem ShouldDiff_gating_witness:
  "CanDiff example_tracker \<and> ShouldDiff example_tracker (Some [0x5b, 0x31, 0x5d])
   \<and> \<not> ShouldDiff example_tracker (Some [0x31])
   \<and> \<not> ShouldDiff (newDeploymentDiffState 2) (Some [0x5b, 0x31, 0x5d])"
proof -
  have a: "CanDiff example_tracker" "\<not> CanDiff (newDeploymentDiffState 2)"
    by (simp_all add: CanDiff_def example_tracker_fields newDeploymentDiffState_def)
  have b: "\<not> len (lastSavedDeployment example_tracker) < sint (minimalDiffSize example_tracker)"
    by (simp add: len_def example_tracker_fields)
  have c: "\<not> len (Some [0x5b, 0x31, 0x5d :: byte]) < sint (minimalDiffSize example_tracker)"
    "len (Some [0x31 :: byte]) < sint (minimalDiffSize example_tracker)"
    by (simp_all add: len_def example_tracker_fields)
  show ?thesis
    using a b c ShouldDiff_gating [of example_tracker "Some [0x5b, 0x31, 0x5d]"]
      ShouldDiff_gating [of example_tracker "Some [0x31]"]
      ShouldDiff_gating [of "newDeploymentDiffState 2" "Some [0x5b, 0x31, 0x5d]"]
    by blast
qed

section \<open>The precondition of Diff\<close>

text \<open>
  C3. On a tracker with no baseline (\<open>CanDiff\<close> false), and so on a freshly constructed
  one, \<open>Diff\<close> fails for every input with the precondition error: it returns the zero
  \<open>deploymentDiff\<close> beside the error, before any computation is started.
\<close>

theorem Diff_before_Saved:
  "(\<not> CanDiff dds \<longrightarrow>
      Diff lib dds deployment =
        (deploymentDiff_zero, Some (Err ''Diff() cannot be called before Saved()''), []))
   \<and> \<not> CanDiff (newDeploymentDiffState T)
   \<and> Diff lib (newDeploymentDiffState T) deployment =
        (deploymentDiff_zero, Some (Err ''Diff() cannot be called before Saved()''), [])"
  by (simp add: Diff_def CanDiff_def newDeploymentDiffState_def)

theorem Diff_before_Saved_witness:
  "\<not> CanDiff (newDeploymentDiffState 2)
   \<and> Diff (test_library False) (newDeploymentDiffState 2) example_candidate =
        (deploymentDiff_zero, Some (Err ''Diff() cannot be called before Saved()''), [])"
  using Diff_before_Saved
    [of "newDeploymentDiffState 2" "test_library False" example_candidate 2]
  by blast

section \<open>Saved and the sequence number\<close>

text \<open>
  C4. For every snapshot, \<open>Saved\<close> returns no error, stores the snapshot in
  \<open>lastSavedDeployment\<close> and adds exactly 1 to \<open>sequenceNumber\<close>. Hence after \<open>n\<close>
  calls of \<open>Saved\<close> on a fresh tracker \<open>SequenceNumber\<close> is \<open>n + 1\<close>, as a value of Go's
  \<open>int\<close>; read as an integer it is \<open>n + 1\<close> for every \<open>n\<close> below \<open>2^63 - 1\<close>, the
  largest count an \<open>int\<close> holds.
\<close>

theorem Saved_sequencing:
  "fst (Saved dds snapshot) = None
   \<and> lastSavedDeployment (snd (Saved dds snapshot)) = snapshot
   \<and> sequenceNumber (snd (Saved dds snapshot)) = sequenceNumber dds + 1
   \<and> minimalDiffSize (snd (Saved dds snapshot)) = minimalDiffSize dds
   \<and> SequenceNumber (Saved_times n snapshots (newDeploymentDiffState T)) = of_nat n + 1
   \<and> (n < 2 ^ 63 - 1 \<longrightarrow>
        sint (SequenceNumber (Saved_times n snapshots (newDeploymentDiffState T))) = int n + 1)"
  using sint_go_int_of_nat [of n]
  by (simp add: Saved_def SequenceNumber_def Saved_times_sequenceNumber newDeploymentDiffState_def)

theorem Saved_sequencing_witness:
  "(2::nat) < 2 ^ 63 - 1
   \<and> sint (SequenceNumber
        (Saved_times 2 (\<lambda>i. Some [0x7b, 0x7d]) (newDeploymentDiffState 10))) = 3"
  using Saved_sequencing
    [of example_tracker "Some [0x7b, 0x7d]" 2 "\<lambda>i. Some [0x7b, 0x7d]" 10]
  by simp

section \<open>Baseline and counter along a run\<close>

text \<open>
  C5, as amended. In every state a fresh tracker reaches by a sequence of
  \<open>ShouldDiff\<close>, \<open>CanDiff\<close>, \<open>SequenceNumber\<close>, \<open>Diff\<close> and \<open>Saved\<close> calls, the baseline is
  absent if and only if no \<open>Saved\<close> call has occurred or the most recent \<open>Saved\<close> call was
  given the \<open>nil\<close> snapshot; \<open>sequenceNumber\<close> is 1 plus the number of \<open>Saved\<close> calls (in
  Go's \<open>int\<close>); and while no \<open>Saved\<close> call has occurred, \<open>sequenceNumber\<close> is 1 and the
  baseline is absent.
\<close>

theorem baseline_counter_coupling:
  "(lastSavedDeployment (run lib cs (newDeploymentDiffState T)) = None \<longleftrightarrow>
      filter is_Saved cs = [] \<or> last_Saved cs = Some None)
   \<and> sequenceNumber (run lib cs (newDeploymentDiffState T)) =
       1 + of_nat (length (filter is_Saved cs))
   \<and> (filter is_Saved cs = [] \<longrightarrow>
        sequenceNumber (run lib cs (newDeploymentDiffState T)) = 1
        \<and> lastSavedDeployment (run lib cs (newDeploymentDiffState T)) = None)"
proof -
  have "lastSavedDeployment (run lib cs (newDeploymentDiffState T)) = None \<longleftrightarrow>
      filter is_Saved cs = [] \<or> last_Saved cs = Some None"
    using last_Saved_None [of cs]
    by (auto simp: run_lastSavedDeployment newDeploymentDiffState_def split: option.splits)
  moreover have "sequenceNumber (run lib cs (newDeploymentDiffState T)) =
       1 + of_nat (length (filter is_Saved cs))"
    by (simp add: run_sequenceNumber newDeploymentDiffState_def)
  ultimately show ?thesis
    by simp
qed

theorem baseline_counter_coupling_witness:
  "filter is_Saved [Call_CanDiff, Call_Diff example_candidate] = []
   \<and> sequenceNumber (run (test_library False)
        [Call_CanDiff, Call_Diff example_candidate] (newDeploymentDiffState 2)) = 1
   \<and> lastSavedDeployment (run (test_library False)
        [Call_CanDiff, Call_Diff example_candidate] (newDeploymentDiffState 2)) = None"
proof -
  have a: "filter is_Saved [Call_CanDiff, Call_Diff example_candidate] = []"
    by simp
  show ?thesis
    using a baseline_counter_coupling
      [of "test_library False" "[Call_CanDiff, Call_Diff example_candidate]" 2]
    by blast
qed

text \<open>
  The claim as the specification words it (the baseline is absent if and only if
  \<open>sequenceNumber\<close> is 1 and no \<open>Saved\<close> call has occurred) fails after the single call
  \<open>Saved(nil)\<close>: the baseline is absent, the counter is 2 and a \<open>Saved\<close> call has occurred.
\<close>

theorem baseline_counter_coupling_counterexample:
  "lastSavedDeployment
     (run (test_library False) [Call_Saved None] (newDeploymentDiffState 2)) = None
   \<and> \<not> (sequenceNumber
          (run (test_library False) [Call_Saved None] (newDeploymentDiffState 2)) = 1
        \<and> filter is_Saved [Call_Saved None] = [])"
  by (simp add: Saved_def newDeploymentDiffState_def)

section \<open>Frame\<close>

text \<open>
  C6. Every call other than \<open>Saved\<close> (that is \<open>Diff\<close>, whether it succeeds or fails,
  \<open>CanDiff\<close>, \<open>SequenceNumber\<close> and \<open>ShouldDiff\<close>) leaves the tracker, and so
  \<open>lastSavedDeployment\<close>, \<open>sequenceNumber\<close> and \<open>minimalDiffSize\<close>, unchanged, and the same
  call repeated returns the same output; a call that changes the tracker is a \<open>Saved\<close>.
\<close>

theorem reads_frame:
  "(\<not> is_Saved c \<longrightarrow>
      snd (apply_call lib c dds) = dds
      \<and> lastSavedDeployment (snd (apply_call lib c dds)) = lastSavedDeployment dds
      \<and> sequenceNumber (snd (apply_call lib c dds)) = sequenceNumber dds
      \<and> minimalDiffSize (snd (apply_call lib c dds)) = minimalDiffSize dds
      \<and> fst (apply_call lib c (snd (apply_call lib c dds))) = fst (apply_call lib c dds))
   \<and> (snd (apply_call lib c dds) \<noteq> dds \<longrightarrow> is_Saved c)"
  using apply_call_not_Saved [of c lib dds] by auto

theorem reads_frame_witness:
  "\<not> is_Saved (Call_Diff example_candidate)
   \<and> snd (apply_call (test_library False) (Call_Diff example_candidate) example_tracker)
       = example_tracker"
proof -
  have a: "\<not> is_Saved (Call_Diff example_candidate)"
    by simp
  show ?thesis
    using a reads_frame [of "Call_Diff example_candidate" "test_library False" example_tracker]
    by blast
qed

section \<open>The result of a successful Diff\<close>

text \<open>
  C7. When \<open>Diff\<close> succeeds the tracker has a baseline, and the \<open>sequenceNumber\<close> field of
  the result equals what \<open>SequenceNumber\<close> returns on the tracker at the time of the call.
\<close>

theorem Diff_sequenceNumber:
  "Diff lib dds deployment = (diff, None, sync) \<Longrightarrow>
     CanDiff dds \<and> diff_sequenceNumber diff = SequenceNumber dds"
  by (simp add: Diff_success SequenceNumber_def)

theorem Diff_sequenceNumber_witness:
  "Diff (test_library False) example_tracker example_candidate =
     (example_diff, None, [checkpointHashReady_Add, go_computeHash, checkpointHashReady_Wait])
   \<and> CanDiff example_tracker
   \<and> diff_sequenceNumber example_diff = SequenceNumber example_tracker"
  using example_Diff Diff_sequenceNumber [OF example_Diff] by blast

text \<open>
  C8. When \<open>Diff\<close> succeeds, \<open>checkpointHash\<close> is the hexadecimal encoding of the
  \<open>sha256.Sum256\<close> digest of the candidate's raw bytes: 64 characters of the table
  \<open>0123456789abcdef\<close>, the same for every tracker state the candidate is diffed against.
\<close>

theorem Diff_checkpointHash:
  "Diff lib dds deployment = (diff, None, sync) \<Longrightarrow>
     checkpointHash diff =
       EncodeToString (digest_bytes (sha256_Sum256 lib (bytes deployment)))
     \<and> length (checkpointHash diff) = 64
     \<and> set (checkpointHash diff) \<subseteq> set hextable
     \<and> (\<forall>dds' diff' sync'. Diff lib dds' deployment = (diff', None, sync') \<longrightarrow>
           checkpointHash diff' = checkpointHash diff)"
  by (simp add: Diff_success(3) computeHash_unfold length_EncodeToString
      length_digest_bytes set_EncodeToString)

theorem Diff_checkpointHash_witness:
  "Diff (test_library False) example_tracker example_candidate =
     (example_diff, None, [checkpointHashReady_Add, go_computeHash, checkpointHashReady_Wait])
   \<and> length (checkpointHash example_diff) = 64
   \<and> checkpointHash example_diff =
       EncodeToString (digest_bytes
         (sha256_Sum256 (test_library False) (bytes example_candidate)))"
  using example_Diff Diff_checkpointHash [OF example_Diff] by blast

section \<open>Failure of the encoding\<close>



section \<open>Gating implies the precondition\<close>

text \<open>
  C10. If \<open>ShouldDiff\<close> is true for a candidate then \<open>CanDiff\<close> is true, and \<open>Diff\<close> of
  that candidate on the same tracker state does not fail with the precondition error.
\<close>

theorem ShouldDiff_guards_Diff:
  "ShouldDiff dds deployment \<Longrightarrow>
     CanDiff dds
     \<and> fst (snd (Diff lib dds deployment)) \<noteq>
         Some (Err ''Diff() cannot be called before Saved()'')"
proof -
  assume "ShouldDiff dds deployment"
  then have c: "CanDiff dds"
    by (simp add: ShouldDiff_def split: if_splits)
  from Diff_error_cases [OF c, of lib deployment]
  have "fst (snd (Diff lib dds deployment)) \<noteq>
      Some (Err ''Diff() cannot be called before Saved()'')"
    by auto
  with c show ?thesis by simp
qed

theorem ShouldDiff_guards_Diff_witness:
  "ShouldDiff example_tracker example_candidate
   \<and> CanDiff example_tracker
   \<and> fst (snd (Diff (test_library True) example_tracker example_candidate)) \<noteq>
         Some (Err ''Diff() cannot be called before Saved()'')"
  using example_ShouldDiff ShouldDiff_guards_Diff [OF example_ShouldDiff, of "test_library True"]
  by blast

end
